theory Spec2Isabelle
  imports Complex_Main
begin

section \<open>JavaScript numbers\<close>

text \<open>
  Every \<^verbatim>\<open>number\<close> of the TypeScript sources is an IEEE 754 binary64 value. A finite
  value is kept as the rational it denotes; the negative zero, the two infinities
  (\<open>Infty True\<close> is the negative one) and NaN are separate constructors. \<open>Fin 0\<close> is the
  positive zero.
\<close>

datatype js_number = Fin rat | NegZero | Infty bool | NaN

fun is_neg :: "js_number \<Rightarrow> bool" where
  "is_neg (Fin q) = (q < 0)"
| "is_neg NegZero = True"
| "is_neg (Infty s) = s"
| "is_neg NaN = False"

fun mag :: "js_number \<Rightarrow> rat" where
  "mag (Fin q) = \<bar>q\<bar>"
| "mag NegZero = 0"
| "mag (Infty s) = 0"
| "mag NaN = 0"

fun val :: "js_number \<Rightarrow> rat" where
  "val (Fin q) = q"
| "val NegZero = 0"
| "val (Infty s) = 0"
| "val NaN = 0"

fun is_inf :: "js_number \<Rightarrow> bool" where
  "is_inf (Infty s) = True"
| "is_inf (Fin q) = False"
| "is_inf NegZero = False"
| "is_inf NaN = False"

fun is_finite :: "js_number \<Rightarrow> bool" where
  "is_finite (Fin q) = True"
| "is_finite NegZero = True"
| "is_finite (Infty s) = False"
| "is_finite NaN = False"

definition is_zero :: "js_number \<Rightarrow> bool" where
  "is_zero x = (x = Fin 0 \<or> x = NegZero)"

definition zero :: "bool \<Rightarrow> js_number" where
  "zero s = (if s then NegZero else Fin 0)"

subsection \<open>Rounding to nearest, ties to even\<close>

function ilog2 :: "int \<Rightarrow> int" where
  "ilog2 n = (if n < 2 then 0 else ilog2 (n div 2) + 1)"
  by pat_completeness auto
termination
  by (relation "measure nat") auto

declare ilog2.simps [simp del]

definition pow2 :: "int \<Rightarrow> rat" where
  "pow2 e = (if 0 \<le> e then 2 ^ nat e else 1 / 2 ^ nat (- e))"

text \<open>The binary exponent of a positive rational: \<open>2 ^ e \<le> m < 2 ^ (e + 1)\<close>.\<close>

definition floor_log2 :: "rat \<Rightarrow> int" where
  "floor_log2 m =
     (if 1 \<le> m then ilog2 \<lfloor>m\<rfloor>
      else if \<lceil>1 / m\<rceil> < 2 then 0
      else - (ilog2 (\<lceil>1 / m\<rceil> - 1) + 1))"

text \<open>
  The integer nearest to \<open>q\<close>, given its floor \<open>f\<close>: the floor when the fraction is
  below one half, the next integer when it is above, the even one of the two at a tie.
\<close>

definition tie_to_even :: "rat \<Rightarrow> int \<Rightarrow> int" where
  "tie_to_even q f =
     (if q - of_int f < 1 / 2 then f
      else if 1 / 2 < q - of_int f then f + 1
      else if even f then f else f + 1)"

definition round_half_even :: "rat \<Rightarrow> int" where
  "round_half_even q = tie_to_even q \<lfloor>q\<rfloor>"

text \<open>
  A magnitude is rounded to a multiple of its unit in the last place: 53 significant
  bits for a normal number, the fixed unit \<open>2 ^ - 1074\<close> below \<open>2 ^ - 1022\<close>. A result of
  \<open>2 ^ 1024\<close> or more overflows (\<open>None\<close>).
\<close>

definition round_to_unit :: "rat \<Rightarrow> rat \<Rightarrow> rat" where
  "round_to_unit m u = of_int (round_half_even (m / u)) * u"

definition overflow :: "rat \<Rightarrow> rat option" where
  "overflow r = (if 2 ^ 1024 \<le> r then None else Some r)"

definition round_mag :: "rat \<Rightarrow> rat option" where
  "round_mag m =
     (if m \<le> 0 then Some 0
      else overflow (round_to_unit m (pow2 (max (floor_log2 m) (- 1022) - 52))))"

definition signed :: "bool \<Rightarrow> rat \<Rightarrow> js_number" where
  "signed s r = (if r = 0 then zero s else Fin (if s then - r else r))"

definition fl :: "bool \<Rightarrow> rat \<Rightarrow> js_number" where
  "fl s m = (case round_mag m of None \<Rightarrow> Infty s | Some r \<Rightarrow> signed s r)"

text \<open>A non-negative decimal literal of the source denotes the nearest binary64 value.\<close>

definition js_lit :: "rat \<Rightarrow> js_number" where
  "js_lit q = fl False q"

subsection \<open>Arithmetic and comparison\<close>

text \<open>
  An exact sum of zero is \<open>-0\<close> only when both summands are negative (both are then
  \<open>-0\<close>); any other sum is rounded.
\<close>

definition sum_value :: "bool \<Rightarrow> rat \<Rightarrow> js_number" where
  "sum_value both_negative v = (if v = 0 then zero both_negative else fl (v < 0) \<bar>v\<bar>)"

definition js_add :: "js_number \<Rightarrow> js_number \<Rightarrow> js_number" where
  "js_add x y =
     (if x = NaN \<or> y = NaN then NaN
      else if is_inf x then (if is_inf y \<and> is_neg x \<noteq> is_neg y then NaN else x)
      else if is_inf y then y
      else sum_value (is_neg x \<and> is_neg y) (val x + val y))"

definition js_mul :: "js_number \<Rightarrow> js_number \<Rightarrow> js_number" where
  "js_mul x y =
     (if x = NaN \<or> y = NaN then NaN
      else if is_inf x \<or> is_inf y
        then (if is_zero x \<or> is_zero y then NaN else Infty (is_neg x \<noteq> is_neg y))
      else fl (is_neg x \<noteq> is_neg y) (mag x * mag y))"

definition js_div :: "js_number \<Rightarrow> js_number \<Rightarrow> js_number" where
  "js_div x y =
     (if x = NaN \<or> y = NaN then NaN
      else if is_inf x then (if is_inf y then NaN else Infty (is_neg x \<noteq> is_neg y))
      else if is_inf y then zero (is_neg x \<noteq> is_neg y)
      else if is_zero y then (if is_zero x then NaN else Infty (is_neg x \<noteq> is_neg y))
      else fl (is_neg x \<noteq> is_neg y) (mag x / mag y))"

definition js_lt :: "js_number \<Rightarrow> js_number \<Rightarrow> bool" where
  "js_lt x y =
     (if x = NaN \<or> y = NaN then False
      else if is_inf x then is_neg x \<and> \<not> (is_inf y \<and> is_neg y)
      else if is_inf y then \<not> is_neg y
      else val x < val y)"

definition js_gt :: "js_number \<Rightarrow> js_number \<Rightarrow> bool" where
  "js_gt x y = js_lt y x"

definition js_le :: "js_number \<Rightarrow> js_number \<Rightarrow> bool" where
  "js_le x y = (x \<noteq> NaN \<and> y \<noteq> NaN \<and> \<not> js_lt y x)"

definition js_ge :: "js_number \<Rightarrow> js_number \<Rightarrow> bool" where
  "js_ge x y = js_le y x"

text \<open>\<^verbatim>\<open>Math.min\<close> of two arguments: NaN is contagious and \<open>-0\<close> counts as below \<open>+0\<close>.\<close>

definition Math_min :: "js_number \<Rightarrow> js_number \<Rightarrow> js_number" where
  "Math_min x y =
     (if x = NaN \<or> y = NaN then NaN
      else if js_lt y x then y
      else if js_lt x y then x
      else if is_neg x then x else y)"

text \<open>\<^verbatim>\<open>Math.round\<close>: the integer nearest to the argument, halves rounded up.\<close>

definition integer_value :: "bool \<Rightarrow> int \<Rightarrow> js_number" where
  "integer_value negative n = (if n = 0 then zero negative else fl (n < 0) \<bar>of_int n\<bar>)"

definition Math_round :: "js_number \<Rightarrow> js_number" where
  "Math_round x =
     (case x of
        Fin q \<Rightarrow> integer_value (q < 0) \<lfloor>q + 1 / 2\<rfloor>
      | _ \<Rightarrow> x)"

section \<open>Position sizer\<close>

text \<open>
  \<^verbatim>\<open>TradingTools.calculatePositionSize.execute\<close>. The tool is an async function; its
  promise is modelled by a sum, \<open>Inl\<close> for a rejection. The body has no \<^verbatim>\<open>throw\<close>.
\<close>

datatype js_error = ReferenceError string | TypeError string | Error string

fun error_message :: "js_error \<Rightarrow> string" where
  "error_message (ReferenceError m) = m"
| "error_message (TypeError m) = m"
| "error_message (Error m) = m"

definition calculatePositionSize :: "js_number \<Rightarrow> js_number \<Rightarrow> js_number \<Rightarrow> js_error + js_number" where
  "calculatePositionSize totalBalance riskPercentage stopLossPercentage =
     (let riskAmount = js_mul totalBalance (js_div riskPercentage (js_lit 100));
          positionSize = js_div riskAmount (js_div stopLossPercentage (js_lit 100))
      in Inr (Math_min positionSize (js_mul totalBalance (js_lit (1 / 2)))))"

section \<open>Signal engine\<close>

record macd_indicator =
  line :: js_number
  signal :: js_number
  histogram :: js_number

record moving_averages =
  sma20 :: js_number
  sma50 :: js_number
  ema12 :: js_number
  ema26 :: js_number

record TechnicalIndicators =
  rsi :: js_number
  macd :: macd_indicator
  movingAverages :: moving_averages
  volume :: js_number
  volatility :: js_number

datatype action = Buy | Sell | Hold

record TradingSignal =
  action :: action
  confidence :: js_number
  reason :: string
  suggestedAmount :: "js_number option"
  targetPrice :: "js_number option"
  stopLoss :: "js_number option"

text \<open>
  \<^verbatim>\<open>Math.random()\<close> reads a hidden generator. The generator is an explicit argument: the
  sequence of values it will return, consumed from the front.
\<close>

type_synonym rng = "nat \<Rightarrow> js_number"

definition Math_random :: "rng \<Rightarrow> js_number \<times> rng" where
  "Math_random g = (g 0, \<lambda>n. g (Suc n))"

text \<open>\<^verbatim>\<open>String.prototype.trim\<close> on ASCII text.\<close>

definition is_space :: "char \<Rightarrow> bool" where
  "is_space c = (c \<in> set [CHR '' '', CHR 0x09, CHR 0x0A, CHR 0x0B, CHR 0x0C, CHR 0x0D])"

definition trim :: "string \<Rightarrow> string" where
  "trim s = rev (dropWhile is_space (rev (dropWhile is_space s)))"

text \<open>
  The three mutable locals of \<^verbatim>\<open>generateSignal\<close> (\<^verbatim>\<open>action\<close>, \<^verbatim>\<open>confidence\<close>,
  \<^verbatim>\<open>reason\<close>) are threaded through its five blocks, one definition per block, in the
  order of the source.
\<close>

type_synonym verdict = "action \<times> js_number \<times> string"

definition rsi_signals :: "TechnicalIndicators \<Rightarrow> verdict \<Rightarrow> verdict" where
  "rsi_signals indicators v =
     (case v of (a, c, r) \<Rightarrow>
        if js_lt (rsi indicators) (js_lit 30)
          then (Buy, js_add c (js_lit (3 / 10)), r @ ''RSI oversold. '')
        else if js_gt (rsi indicators) (js_lit 70)
          then (Sell, js_add c (js_lit (3 / 10)), r @ ''RSI overbought. '')
        else (a, c, r))"

definition macd_signals :: "TechnicalIndicators \<Rightarrow> verdict \<Rightarrow> verdict" where
  "macd_signals indicators v =
     (case v of (a, c, r) \<Rightarrow>
        if js_gt (line (macd indicators)) (signal (macd indicators))
           \<and> js_gt (histogram (macd indicators)) (js_lit 0)
          then (if a = Hold then Buy else a, js_add c (js_lit (1 / 4)),
                r @ ''MACD bullish crossover. '')
        else if js_lt (line (macd indicators)) (signal (macd indicators))
           \<and> js_lt (histogram (macd indicators)) (js_lit 0)
          then (if a = Hold then Sell else a, js_add c (js_lit (1 / 4)),
                r @ ''MACD bearish crossover. '')
        else (a, c, r))"

definition moving_average_signals :: "TechnicalIndicators \<Rightarrow> verdict \<Rightarrow> verdict" where
  "moving_average_signals indicators v =
     (case v of (a, c, r) \<Rightarrow>
        if js_gt (ema12 (movingAverages indicators)) (ema26 (movingAverages indicators))
          then (if a = Hold then Buy else a, js_add c (js_lit (1 / 5)),
                r @ ''EMA bullish alignment. '')
        else if js_lt (ema12 (movingAverages indicators)) (ema26 (movingAverages indicators))
          then (if a = Hold then Sell else a, js_add c (js_lit (1 / 5)),
                r @ ''EMA bearish alignment. '')
        else (a, c, r))"

definition volume_confirmation :: "TechnicalIndicators \<Rightarrow> verdict \<Rightarrow> verdict" where
  "volume_confirmation indicators v =
     (case v of (a, c, r) \<Rightarrow>
        if js_gt (volume indicators) (js_lit 500000)
          then (a, js_add c (js_lit (15 / 100)), r @ ''High volume confirmation. '')
        else (a, c, r))"

definition volatility_adjustment :: "TechnicalIndicators \<Rightarrow> verdict \<Rightarrow> verdict" where
  "volatility_adjustment indicators v =
     (case v of (a, c, r) \<Rightarrow>
        if js_gt (volatility indicators) (js_lit (3 / 10))
          then (a, js_mul c (js_lit (8 / 10)), r @ ''High volatility detected. '')
        else (a, c, r))"

text \<open>
  The returned object literal is evaluated field by field, so the three optional fields
  draw from \<^verbatim>\<open>Math.random()\<close> in the order \<^verbatim>\<open>suggestedAmount\<close>, \<^verbatim>\<open>targetPrice\<close>,
  \<^verbatim>\<open>stopLoss\<close>.
\<close>

definition random_field :: "bool \<Rightarrow> js_number \<Rightarrow> js_number \<Rightarrow> rng \<Rightarrow> js_number option \<times> rng" where
  "random_field present scale offset g =
     (if present
        then (case Math_random g of (u, g') \<Rightarrow> (Some (js_add (js_mul u scale) offset), g'))
      else (None, g))"

definition generateSignal :: "TechnicalIndicators \<Rightarrow> rng \<Rightarrow> TradingSignal \<times> rng" where
  "generateSignal indicators g =
     (case volatility_adjustment indicators
             (volume_confirmation indicators
               (moving_average_signals indicators
                 (macd_signals indicators
                   (rsi_signals indicators (Hold, js_lit 0, []))))) of
        (a, c, r) \<Rightarrow>
          (let c' = Math_min c (js_lit 1)
           in case random_field (a \<noteq> Hold) (js_lit 1000) (js_lit 100) g of (amount, g1) \<Rightarrow>
              case random_field (a = Buy) (js_lit 10) (js_lit 100) g1 of (target, g2) \<Rightarrow>
              case random_field (a = Buy) (js_lit 5) (js_lit 95) g2 of (stop, g3) \<Rightarrow>
                (\<lparr>action = a,
                  confidence = js_div (Math_round (js_mul c' (js_lit 100))) (js_lit 100),
                  reason = trim r,
                  suggestedAmount = amount,
                  targetPrice = target,
                  stopLoss = stop\<rparr>, g3)))"

section \<open>Trading workflow\<close>

subsection \<open>Collaborators\<close>

text \<open>
  The steps of \<^verbatim>\<open>trading-workflow.ts\<close> call the Recall tools and the trading memory,
  which reach the network. Each is an argument of the model: what the call returns
  (\<open>Inl\<close> when it throws). A step returns its outcome together with the calls it made, in
  order; logging is left out.
\<close>

record TradeQuote =
  amountOut :: string
  priceImpact :: js_number

record decision =
  execute :: bool
  decision_action :: "action option"
  decision_symbol :: "string option"
  positionSize :: "js_number option"
  decision_reason :: "string option"
  decision_confidence :: "js_number option"

record TradingMemoryEntry =
  timestamp :: int
  entry_symbol :: string
  entry_action :: action
  entry_signal :: "decision option"
  entry_notes :: "string option"
  result_executed :: bool
  result_price :: "js_number option"
  result_amount :: "js_number option"

datatype event =
    GetPortfolioBalance
  | CalculatePositionSize js_number js_number js_number
  | GetTradeQuote string string string "js_error + TradeQuote"
  | ExecuteTrade string string string string
  | StoreTradingDecision TradingMemoryEntry
  | AgentAnalyze string
  | StoreMarketInsight string string js_number
  | AgentTrade action string string

record capabilities =
  getPortfolioBalance :: "js_error + js_number"
  getTradeQuote :: "string \<Rightarrow> string \<Rightarrow> string \<Rightarrow> js_error + TradeQuote"
  executeTrade :: "string \<Rightarrow> string \<Rightarrow> string \<Rightarrow> string \<Rightarrow> js_error + string"
  storeTradingDecision :: "TradingMemoryEntry \<Rightarrow> js_error + unit"

text \<open>
  The conversions between numbers and text of the JavaScript runtime, and the clock
  read by \<^verbatim>\<open>new Date()\<close>, are arguments too.
\<close>

record js_runtime =
  toFixed :: "js_number \<Rightarrow> nat \<Rightarrow> string"
  toString :: "js_number \<Rightarrow> string"
  parseFloat :: "string \<Rightarrow> js_number"
  new_Date :: int

text \<open>
  Two identifiers of the \<^verbatim>\<open>TradeExecution\<close> step are free in it: \<^verbatim>\<open>ethers\<close> and
  \<^verbatim>\<open>marketData\<close>. JavaScript resolves a free identifier when it is evaluated, in the
  scope of the module, and throws a \<^verbatim>\<open>ReferenceError\<close> when nothing binds it. The
  scope is an argument of the step; \<open>workflow_scope\<close> is the scope of the module as it
  is written: its imports (lines 1 to 6) bind neither name.
  \<open>parseUnits\<close> stands for \<^verbatim>\<open>ethers.utils.parseUnits(a, d).toString()\<close>.
\<close>

record ethers_lib =
  parseUnits :: "string \<Rightarrow> nat \<Rightarrow> js_error + string"

record market_data =
  price :: "js_number option"

record module_scope =
  ethers :: "ethers_lib option"
  marketData :: "market_data option"

definition workflow_scope :: module_scope where
  "workflow_scope = \<lparr>ethers = None, marketData = None\<rparr>"

subsection \<open>Steps as computations\<close>

type_synonym 'a step = "(js_error + 'a) \<times> event list"

definition ret :: "'a \<Rightarrow> 'a step" where
  "ret x = (Inr x, [])"

definition throw :: "js_error \<Rightarrow> 'a step" where
  "throw e = (Inl e, [])"

definition call :: "event \<Rightarrow> js_error + 'a \<Rightarrow> 'a step" where
  "call ev outcome = (outcome, [ev])"

definition bind :: "'a step \<Rightarrow> ('a \<Rightarrow> 'b step) \<Rightarrow> 'b step" where
  "bind m f =
     (case m of
        (Inl e, tr) \<Rightarrow> (Inl e, tr)
      | (Inr x, tr) \<Rightarrow> (case f x of (r, tr') \<Rightarrow> (r, tr @ tr')))"

definition resolve :: "string \<Rightarrow> 'a option \<Rightarrow> 'a step" where
  "resolve name binding =
     (case binding of
        None \<Rightarrow> throw (ReferenceError (name @ '' is not defined''))
      | Some x \<Rightarrow> ret x)"

definition reading_undefined :: "string \<Rightarrow> js_error" where
  "reading_undefined property =
     TypeError (''Cannot read properties of undefined (reading '' @ [CHR 0x27] @ property
                @ [CHR 0x27] @ '')'')"

subsection \<open>DecisionMaking\<close>

definition DecisionMaking :: "js_runtime \<Rightarrow> capabilities \<Rightarrow> string \<Rightarrow> TradingSignal \<Rightarrow> decision step" where
  "DecisionMaking rt caps symbol sig =
     (if action sig = Hold \<or> js_lt (confidence sig) (js_lit (6 / 10))
        then ret \<lparr>execute = False, decision_action = None, decision_symbol = None,
                  positionSize = None,
                  decision_reason =
                    Some (''Low confidence ('' @ toString rt (confidence sig) @ '')''),
                  decision_confidence = None\<rparr>
      else
        bind (call GetPortfolioBalance (getPortfolioBalance caps)) (\<lambda>totalBalance.
        let stopLossPercentage = (if action sig = Buy then js_lit 3 else js_lit 2) in
        bind (call (CalculatePositionSize totalBalance (js_lit (3 / 2)) stopLossPercentage)
               (calculatePositionSize totalBalance (js_lit (3 / 2)) stopLossPercentage))
          (\<lambda>size.
        ret \<lparr>execute = True, decision_action = Some (action sig),
             decision_symbol = Some symbol, positionSize = Some size,
             decision_reason = Some (reason sig),
             decision_confidence = Some (confidence sig)\<rparr>)))"

subsection \<open>TradeExecution\<close>

datatype execution_result =
    Executed string string string js_number
  | NotExecuted "string option"
  | Failed string

text \<open>
  \<open>Executed txHash amountIn estimatedAmountOut priceImpact\<close> is the object with
  \<^verbatim>\<open>executed: true\<close>; \<open>NotExecuted reason\<close> is \<^verbatim>\<open>{executed: false, reason}\<close>;
  \<open>Failed m\<close> is \<^verbatim>\<open>{executed: false, error: m}\<close>, built by the \<^verbatim>\<open>catch\<close>.
\<close>

fun executed :: "execution_result \<Rightarrow> bool" where
  "executed (Executed h a out impact) = True"
| "executed (NotExecuted r) = False"
| "executed (Failed m) = False"

fun result_reason :: "execution_result \<Rightarrow> string option" where
  "result_reason (Executed h a out impact) = None"
| "result_reason (NotExecuted r) = r"
| "result_reason (Failed m) = None"

fun split_on :: "char \<Rightarrow> string \<Rightarrow> string list" where
  "split_on sep [] = [Nil]"
| "split_on sep (c # cs) =
     (if c = sep then [] # split_on sep cs
      else (case split_on sep cs of
              [] \<Rightarrow> [c # Nil]
            | p # ps \<Rightarrow> (c # p) # ps))"

definition element :: "'a list \<Rightarrow> nat \<Rightarrow> 'a option" where
  "element xs n = (if n < length xs then Some (xs ! n) else None)"

definition to_number :: "js_number option \<Rightarrow> js_number" where
  "to_number x = (case x of None \<Rightarrow> NaN | Some n \<Rightarrow> n)"

definition buy_tokenIn :: "string option \<Rightarrow> string" where
  "buy_tokenIn quoteAsset =
     (if quoteAsset = Some ''USDC'' then ''0xa0b86991c6218b36c1d19d4a2e9eb0ce3606eb48''
      else ''0xdac17f958d2ee523a2206206994597c13d831ec7'')"

definition buy_tokenOut :: "string option \<Rightarrow> string" where
  "buy_tokenOut baseAsset =
     (if baseAsset = Some ''ETH'' then ''0xc02aaa39b223fe8d0a0e5c4f27ead9083c756cc2''
      else if baseAsset = Some ''BTC'' then ''0x2260fac5e5542a773aa44fbcfedf7c193bc2c599''
      else ''0x514910771af9ca656af840dff83e8264ecf986ca'')"

text \<open>The body of the \<^verbatim>\<open>try\<close> block (lines 86 to 148); \<open>None\<close> is \<^verbatim>\<open>undefined\<close>.\<close>

definition TradeExecution_try ::
  "module_scope \<Rightarrow> js_runtime \<Rightarrow> capabilities \<Rightarrow> decision \<Rightarrow> execution_result option step" where
  "TradeExecution_try sc rt caps dec =
     (case decision_symbol dec of
        None \<Rightarrow> throw (reading_undefined ''split'')
      | Some symbol \<Rightarrow>
         (let baseAsset = element (split_on CHR ''/'' symbol) 0;
              quoteAsset = element (split_on CHR ''/'' symbol) 1
          in if decision_action dec = Some Buy then
               (let tokenIn = buy_tokenIn quoteAsset;
                    tokenOut = buy_tokenOut baseAsset;
                    amountIn = toFixed rt (js_mul (to_number (positionSize dec)) (js_lit (99 / 100))) 6
                in bind (resolve ''ethers'' (ethers sc)) (\<lambda>lib.
                   bind (case parseUnits lib amountIn 6 of Inl e \<Rightarrow> throw e | Inr u \<Rightarrow> ret u)
                     (\<lambda>units.
                   bind (call (GetTradeQuote tokenIn tokenOut units
                                 (getTradeQuote caps tokenIn tokenOut units))
                           (getTradeQuote caps tokenIn tokenOut units)) (\<lambda>quote.
                   if js_lt (priceImpact quote) (js_lit (3 / 2)) then
                     bind (resolve ''ethers'' (ethers sc)) (\<lambda>lib'.
                     bind (case parseUnits lib' amountIn 6 of Inl e \<Rightarrow> throw e | Inr u \<Rightarrow> ret u)
                       (\<lambda>units'.
                     let minAmountOut =
                           toString rt (js_mul (parseFloat rt (amountOut quote)) (js_lit (99 / 100)))
                     in
                     bind (call (ExecuteTrade tokenIn tokenOut units' minAmountOut)
                             (executeTrade caps tokenIn tokenOut units' minAmountOut)) (\<lambda>txHash.
                     let now = new_Date rt in
                     bind (resolve ''marketData'' (marketData sc)) (\<lambda>md.
                     let entry = \<lparr>timestamp = now, entry_symbol = symbol, entry_action = Buy,
                                  entry_signal = Some dec, entry_notes = None, result_executed = True,
                                  result_price = price md,
                                  result_amount = Some (parseFloat rt amountIn)\<rparr>
                     in
                     bind (call (StoreTradingDecision entry) (storeTradingDecision caps entry))
                       (\<lambda>stored.
                     ret (Some (Executed txHash amountIn (amountOut quote) (priceImpact quote))))))))
                   else
                     ret (Some (NotExecuted (Some (''Price impact too high: ''
                                  @ toString rt (priceImpact quote) @ ''%''))))))))
             else if decision_action dec = Some Sell then
               ret (Some (NotExecuted (Some ''Sell implementation pending'')))
             else ret None))"

definition TradeExecution ::
  "module_scope \<Rightarrow> js_runtime \<Rightarrow> capabilities \<Rightarrow> decision \<Rightarrow> execution_result option \<times> event list" where
  "TradeExecution sc rt caps dec =
     (if \<not> execute dec then (Some (NotExecuted (decision_reason dec)), [])
      else (case TradeExecution_try sc rt caps dec of
              (Inl error, tr) \<Rightarrow> (Some (Failed (error_message error)), tr)
            | (Inr r, tr) \<Rightarrow> (r, tr)))"

subsection \<open>PostTradeAnalysis\<close>

record analysis =
  status :: string
  message :: string
  execution :: "execution_result option"

definition tx_hash :: "execution_result \<Rightarrow> string" where
  "tx_hash r = (case r of Executed h a out impact \<Rightarrow> h | _ \<Rightarrow> ''undefined'')"

definition PostTradeAnalysis :: "execution_result option \<Rightarrow> js_error + analysis" where
  "PostTradeAnalysis executionResult =
     (case executionResult of
        None \<Rightarrow> Inl (reading_undefined ''executed'')
      | Some r \<Rightarrow>
          if executed r
            then Inr \<lparr>status = ''success'',
                      message = ''Trade executed with tx hash '' @ tx_hash r,
                      execution = Some r\<rparr>
          else Inr \<lparr>status = ''skipped'',
                    message = (case result_reason r of
                                 None \<Rightarrow> ''Unknown reason''
                               | Some m \<Rightarrow> if m = [] then ''Unknown reason'' else m),
                    execution = None\<rparr>)"

text \<open>
  Modelled from the spec: the runner of the framework's \<^verbatim>\<open>Workflow\<close> class, which is
  not part of the sources. Section 4.3 of the specification has the stages execute
  strictly in order, each on the outcome of the one before. \<open>decide_execute_record\<close>
  runs the three stages that follow the analysis of the market.
\<close>

definition decide_execute_record ::
  "module_scope \<Rightarrow> js_runtime \<Rightarrow> capabilities \<Rightarrow> string \<Rightarrow> TradingSignal \<Rightarrow> analysis step" where
  "decide_execute_record sc rt caps symbol sig =
     bind (DecisionMaking rt caps symbol sig) (\<lambda>dec.
     bind (case TradeExecution sc rt caps dec of (r, tr) \<Rightarrow> (Inr r, tr)) (\<lambda>r.
     (PostTradeAnalysis r, [])))"

section \<open>Scheduler: the cooldown of the agent\<close>

text \<open>
  The fields of class \<^verbatim>\<open>SlothfulTrader\<close> (\<^verbatim>\<open>agent.ts\<close>) that its methods read and write.
  Timestamps are whole milliseconds, far below \<open>2 ^ 53\<close>, where binary64 arithmetic is
  exact: they are integers here.
\<close>

record SlothfulTrader =
  isActive :: bool
  lastTradeTimestamp :: int
  tradingPairs :: "string list"
  cooldownPeriod :: int

definition new_SlothfulTrader :: SlothfulTrader where
  "new_SlothfulTrader =
     \<lparr>isActive = False, lastTradeTimestamp = 0,
      tradingPairs = [''ETH/USDC'', ''BTC/USDC'', ''LINK/USDC''],
      cooldownPeriod = 5 * 60 * 1000\<rparr>"

text \<open>
  What one run of \<^verbatim>\<open>analyzeTradingPair\<close> meets outside the class: the reading of
  \<^verbatim>\<open>Date.now()\<close> at its start, the text the language model answers to the analysis
  prompt and to the trade prompt, the reading of \<^verbatim>\<open>new Date()\<close> when the decision is
  recorded, and whether the two writes to the trading memory succeed.
\<close>

record evaluation =
  Date_now :: int
  market_analysis :: "js_error + string"
  insight_stored :: "js_error + unit"
  trade_reply :: "js_error + string"
  decision_date :: int
  decision_stored :: "js_error + unit"

text \<open>\<^verbatim>\<open>toLowerCase\<close> and \<^verbatim>\<open>includes\<close> on ASCII text.\<close>

definition lower_char :: "char \<Rightarrow> char" where
  "lower_char c =
     (case map_of (zip ''ABCDEFGHIJKLMNOPQRSTUVWXYZ'' ''abcdefghijklmnopqrstuvwxyz'') c of
        None \<Rightarrow> c
      | Some l \<Rightarrow> l)"

definition toLowerCase :: "string \<Rightarrow> string" where
  "toLowerCase s = map lower_char s"

fun js_includes :: "string \<Rightarrow> string \<Rightarrow> bool" where
  "js_includes [] sub = (sub = [])"
| "js_includes (c # cs) sub = (take (length sub) (c # cs) = sub \<or> js_includes cs sub)"

definition executeTradingDecision :: "evaluation \<Rightarrow> string \<Rightarrow> string \<Rightarrow> event list" where
  "executeTradingDecision w symbol analysis_text =
     (let act = (if js_includes (toLowerCase analysis_text) ''buy'' then Buy else Sell)
      in snd (bind (call (AgentTrade act symbol analysis_text) (trade_reply w)) (\<lambda>reply.
              let entry = \<lparr>timestamp = decision_date w, entry_symbol = symbol,
                           entry_action = act, entry_signal = None,
                           entry_notes = Some analysis_text,
                           result_executed =
                             (js_includes (toLowerCase reply) ''executed''
                              \<or> js_includes (toLowerCase reply) ''successful''),
                           result_price = None, result_amount = None\<rparr>
              in call (StoreTradingDecision entry) (decision_stored w))))"

text \<open>
  \<^verbatim>\<open>analyzeTradingPair\<close>: the new state of the object and the calls made. Both
  \<^verbatim>\<open>catch\<close> blocks only log, so neither method throws.
\<close>

definition analyzeTradingPair :: "SlothfulTrader \<Rightarrow> evaluation \<Rightarrow> string \<Rightarrow> SlothfulTrader \<times> event list" where
  "analyzeTradingPair this w symbol =
     (let now = Date_now w
      in if now - lastTradeTimestamp this < cooldownPeriod this then (this, [])
         else (case market_analysis w of
                 Inl error \<Rightarrow> (this, [AgentAnalyze symbol])
               | Inr text \<Rightarrow>
                  (case insight_stored w of
                     Inl error \<Rightarrow>
                       (this, [AgentAnalyze symbol,
                               StoreMarketInsight symbol text (js_lit (7 / 10))])
                   | Inr stored \<Rightarrow>
                       if js_includes (toLowerCase text) ''buy''
                          \<or> js_includes (toLowerCase text) ''sell''
                         then (this\<lparr>lastTradeTimestamp := now\<rparr>,
                               [AgentAnalyze symbol,
                                StoreMarketInsight symbol text (js_lit (7 / 10))]
                               @ executeTradingDecision w symbol text)
                       else (this, [AgentAnalyze symbol,
                                    StoreMarketInsight symbol text (js_lit (7 / 10))]))))"

section \<open>Auxiliary notions\<close>

text \<open>Which of the scoring rules fire on a snapshot, and the score they add up to.\<close>

definition rsi_fired :: "TechnicalIndicators \<Rightarrow> bool" where
  "rsi_fired i = (js_lt (rsi i) (js_lit 30) \<or> js_gt (rsi i) (js_lit 70))"

definition macd_fired :: "TechnicalIndicators \<Rightarrow> bool" where
  "macd_fired i =
     (js_gt (line (macd i)) (signal (macd i)) \<and> js_gt (histogram (macd i)) (js_lit 0)
      \<or> js_lt (line (macd i)) (signal (macd i)) \<and> js_lt (histogram (macd i)) (js_lit 0))"

definition ema_fired :: "TechnicalIndicators \<Rightarrow> bool" where
  "ema_fired i =
     (js_gt (ema12 (movingAverages i)) (ema26 (movingAverages i))
      \<or> js_lt (ema12 (movingAverages i)) (ema26 (movingAverages i)))"

definition add_if :: "bool \<Rightarrow> rat \<Rightarrow> js_number \<Rightarrow> js_number" where
  "add_if fired q c = (if fired then js_add c (js_lit q) else c)"

definition raw_confidence :: "bool \<Rightarrow> bool \<Rightarrow> bool \<Rightarrow> bool \<Rightarrow> bool \<Rightarrow> js_number" where
  "raw_confidence r m e v h =
     (if h
        then js_mul (add_if v (15 / 100) (add_if e (1 / 5) (add_if m (1 / 4)
               (add_if r (3 / 10) (js_lit 0))))) (js_lit (8 / 10))
      else add_if v (15 / 100) (add_if e (1 / 5) (add_if m (1 / 4)
               (add_if r (3 / 10) (js_lit 0)))))"

definition percent :: "bool \<Rightarrow> bool \<Rightarrow> bool \<Rightarrow> bool \<Rightarrow> bool \<Rightarrow> nat" where
  "percent r m e v h =
     (let p = (if r then 30 else 0) + (if m then 25 else 0) + (if e then 20 else 0)
              + (if v then 15 else 0)
      in if h then p * 4 div 5 else p)"

text \<open>The binary logarithm read off the binary digits of a numeral.\<close>

fun num_log2 :: "num \<Rightarrow> int" where
  "num_log2 num.One = 0"
| "num_log2 (num.Bit0 k) = num_log2 k + 1"
| "num_log2 (num.Bit1 k) = num_log2 k + 1"

text \<open>Sign information that survives rounding.\<close>

definition pos :: "js_number \<Rightarrow> bool" where
  "pos x = (x \<noteq> NaN \<and> \<not> is_neg x)"

definition nnz :: "js_number \<Rightarrow> bool" where
  "nnz x = (x = NaN \<or> x = NegZero \<or> \<not> is_neg x)"

fun is_ExecuteTrade :: "event \<Rightarrow> bool" where
  "is_ExecuteTrade (ExecuteTrade tokenIn tokenOut amount minOut) = True"
| "is_ExecuteTrade other = False"

section \<open>Sample inputs\<close>

definition bullish :: TechnicalIndicators where
  "bullish =
     \<lparr>rsi = js_lit 20,
      macd = \<lparr>line = js_lit 1, signal = js_lit 0, histogram = js_lit 1\<rparr>,
      movingAverages = \<lparr>sma20 = js_lit 100, sma50 = js_lit 100, ema12 = js_lit 102,
                        ema26 = js_lit 101\<rparr>,
      volume = js_lit 600000, volatility = js_lit (1 / 10)\<rparr>"

text \<open>
  A runtime that converts the few values of the samples as JavaScript does, and a set of
  collaborators that quotes a price impact of 2 percent.
\<close>

definition sample_runtime :: js_runtime where
  "sample_runtime =
     \<lparr>toFixed = (\<lambda>x digits. if x = Fin 990 \<and> digits = 6 then ''990.000000'' else ''NaN''),
      toString = (\<lambda>x. if x = Fin 2 then ''2'' else if x = Fin (3 / 4) then ''0.75'' else ''NaN''),
      parseFloat = (\<lambda>s. if s = ''1000'' then Fin 1000 else NaN),
      new_Date = 1700000000000\<rparr>"

definition sample_capabilities :: capabilities where
  "sample_capabilities =
     \<lparr>getPortfolioBalance = Inr (Fin 10000),
      getTradeQuote = (\<lambda>tokenIn tokenOut amount. Inr \<lparr>amountOut = ''1000'', priceImpact = Fin 2\<rparr>),
      executeTrade = (\<lambda>tokenIn tokenOut amount minOut. Inr ''0xabc''),
      storeTradingDecision = (\<lambda>entry. Inr ())\<rparr>"

text \<open>A scope in which \<^verbatim>\<open>ethers\<close> is bound, as an import of the library would bind it.\<close>

definition ethers_scope :: module_scope where
  "ethers_scope =
     \<lparr>ethers = Some \<lparr>parseUnits = (\<lambda>amount decimals.
         if amount = ''990.000000'' \<and> decimals = 6 then Inr ''990000000''
         else Inl (Error ''invalid decimal value''))\<rparr>,
      marketData = None\<rparr>"

definition buy_decision :: decision where
  "buy_decision =
     \<lparr>execute = True, decision_action = Some Buy, decision_symbol = Some ''ETH/USDC'',
      positionSize = Some (Fin 1000), decision_reason = Some ''RSI oversold.'',
      decision_confidence = Some (Fin (3 / 4))\<rparr>"

definition sell_decision :: decision where
  "sell_decision =
     \<lparr>execute = True, decision_action = Some Sell, decision_symbol = Some ''ETH/USDC'',
      positionSize = Some (Fin 1000), decision_reason = Some ''RSI overbought.'',
      decision_confidence = Some (Fin (3 / 4))\<rparr>"

definition hold_signal :: TradingSignal where
  "hold_signal =
     \<lparr>action = Hold, confidence = Fin (3 / 4), reason = [], suggestedAmount = None,
      targetPrice = None, stopLoss = None\<rparr>"

definition trade_evaluation :: evaluation where
  "trade_evaluation =
     \<lparr>Date_now = 1700000000000, market_analysis = Inr ''Strong BUY signal'',
      insight_stored = Inr (), trade_reply = Inr ''Trade executed'',
      decision_date = 1700000005000, decision_stored = Inr ()\<rparr>"

definition later_evaluation :: evaluation where
  "later_evaluation =
     \<lparr>Date_now = 1700000302000, market_analysis = Inr ''No clear trend'',
      insight_stored = Inr (), trade_reply = Inr ''nothing'',
      decision_date = 1700000303000, decision_stored = Inr ()\<rparr>"

definition cooling_evaluation :: evaluation where
  "cooling_evaluation =
     \<lparr>Date_now = 1700000299999, market_analysis = Inr ''Strong BUY signal'',
      insight_stored = Inr (), trade_reply = Inr ''Trade executed'',
      decision_date = 1700000300000, decision_stored = Inr ()\<rparr>"

definition after_trade :: SlothfulTrader where
  "after_trade = new_SlothfulTrader\<lparr>lastTradeTimestamp := 1700000000000\<rparr>"

section \<open>Evaluation of numeric terms\<close>

lemma floor_rat_numeral [simp]:
  "\<lfloor>numeral a / numeral b :: rat\<rfloor> = numeral a div numeral b"
  using floor_divide_of_int_eq [of "numeral a" "numeral b", where ?'a = rat] by simp

lemma ceiling_rat_numeral [simp]:
  "\<lceil>numeral a / numeral b :: rat\<rceil> = - (- numeral a div numeral b)"
  using floor_divide_of_int_eq [of "- numeral a" "numeral b", where ?'a = rat]
  by (simp add: ceiling_def)

lemma floor_rat_one_numeral [simp]: "\<lfloor>1 / numeral b :: rat\<rfloor> = 1 div numeral b"
  using floor_divide_of_int_eq [of 1 "numeral b", where ?'a = rat] by simp

lemma ceiling_rat_one_numeral [simp]: "\<lceil>1 / numeral b :: rat\<rceil> = - (- 1 div numeral b)"
  using floor_divide_of_int_eq [of "- 1" "numeral b", where ?'a = rat]
  by (simp add: ceiling_def)

lemma ilog2_one: "ilog2 1 = 0"
  by (simp add: ilog2.simps)

lemma ilog2_numeral: "ilog2 (numeral k) = num_log2 k"
proof (induction k)
  case One
  show ?case by (simp add: ilog2.simps)
next
  case (Bit0 k)
  have "ilog2 (numeral (num.Bit0 k)) = ilog2 (numeral (num.Bit0 k) div 2) + 1"
    by (subst ilog2.simps) simp
  then show ?case using Bit0 by simp
next
  case (Bit1 k)
  have "ilog2 (numeral (num.Bit1 k)) = ilog2 (numeral (num.Bit1 k) div 2) + 1"
    by (subst ilog2.simps) simp
  then show ?case using Bit1 by simp
qed

lemmas round_eval =
  fl_def signed_def round_mag_def overflow_def round_to_unit_def floor_log2_def pow2_def
  round_half_even_def tie_to_even_def ilog2_numeral ilog2_one zero_def

lemmas fl_eval = round_eval js_lit_def

text \<open>The literals of the scoring rules, as binary64 values.\<close>

lemma signal_literals:
  "js_lit 0 = Fin 0"
  "js_lit 1 = Fin 1"
  "js_lit 100 = Fin 100"
  "js_lit (1 / 4) = Fin (1 / 4)"
  "js_lit (3 / 10) = Fin (5404319552844595 / 18014398509481984)"
  "js_lit (1 / 5) = Fin (3602879701896397 / 18014398509481984)"
  "js_lit (3 / 20) = Fin (5404319552844595 / 36028797018963968)"
  "js_lit (4 / 5) = Fin (3602879701896397 / 4503599627370496)"
  by (simp_all add: fl_eval)

lemmas js_eval =
  js_add_def sum_value_def js_mul_def js_div_def js_lt_def js_gt_def js_le_def js_ge_def
  Math_min_def Math_round_def integer_value_def is_zero_def

lemma js_lit_0: "js_lit 0 = Fin 0"
  by (simp add: fl_eval)

lemma js_lit_100: "js_lit 100 = Fin 100"
  by (simp add: fl_eval)

section \<open>Signs under rounding\<close>

lemma pow2_pos: "0 < pow2 e"
  by (simp add: pow2_def)

lemma round_half_even_nonneg: "0 \<le> q \<Longrightarrow> 0 \<le> round_half_even q"
  by (simp add: round_half_even_def tie_to_even_def)

lemma round_mag_nonneg: "round_mag m = Some r \<Longrightarrow> 0 \<le> r"
  by (auto simp: round_mag_def overflow_def round_to_unit_def pow2_pos round_half_even_nonneg
           less_imp_le split: if_splits)

lemma pos_fl: "pos (fl False m)"
  using round_mag_nonneg [of m]
  by (cases "round_mag m") (auto simp: fl_def signed_def pos_def zero_def)

lemma fl_zero: "fl s 0 = zero s"
  by (simp add: fl_def signed_def round_mag_def)

lemma pos_lit: "pos (js_lit q)"
  by (simp add: js_lit_def pos_fl)

lemma nnz_mul: "nnz x \<Longrightarrow> pos y \<Longrightarrow> nnz (js_mul x y)"
  using pos_fl [of "mag x * mag y"]
  by (cases x; cases y) (auto simp: js_mul_def nnz_def pos_def is_zero_def fl_zero zero_def)

lemma nnz_div: "nnz x \<Longrightarrow> pos y \<Longrightarrow> nnz (js_div x y)"
  using pos_fl [of "mag x / mag y"]
  by (cases x; cases y) (auto simp: js_div_def nnz_def pos_def is_zero_def fl_zero zero_def)

lemma gt_zero_pos: "js_gt x (js_lit 0) \<Longrightarrow> pos x"
  by (cases x) (auto simp: js_gt_def js_lt_def js_lit_0 pos_def split: if_splits)

lemma ge_zero_nnz: "js_ge x (js_lit 0) \<Longrightarrow> nnz x"
  by (cases x) (auto simp: js_ge_def js_le_def js_lt_def js_lit_0 nnz_def split: if_splits)

lemma nnz_ge_zero: "nnz x \<Longrightarrow> x \<noteq> NaN \<Longrightarrow> js_le (js_lit 0) x"
  by (cases x) (auto simp: js_le_def js_lt_def js_lit_0 nnz_def)

lemma pos_percent: "js_gt x (js_lit 0) \<Longrightarrow> pos (js_div x (js_lit 100))"
  using pos_fl [of "mag x / 100"]
  by (auto dest!: gt_zero_pos simp: js_div_def js_lit_100 pos_def is_zero_def zero_def)

lemma js_lt_irrefl: "\<not> js_lt x x"
  by (cases x) (auto simp: js_lt_def)

lemma js_lt_asym: "js_lt x y \<Longrightarrow> \<not> js_lt y x"
  by (cases x; cases y) (auto simp: js_lt_def split: if_splits)

lemma Math_min_le: "Math_min x y \<noteq> NaN \<Longrightarrow> js_le (Math_min x y) y"
  by (auto simp: Math_min_def js_le_def js_lt_irrefl split: if_splits)

lemma Math_min_nnz: "nnz x \<Longrightarrow> nnz y \<Longrightarrow> nnz (Math_min x y)"
  by (auto simp: Math_min_def nnz_def)

section \<open>Rounding: what the definitions compute\<close>

text \<open>\<open>ilog2\<close> and \<open>floor_log2\<close> are the binary exponent.\<close>

lemma ilog2_bounds:
  "1 \<le> n \<Longrightarrow> \<exists>k. ilog2 n = int k \<and> 2 ^ k \<le> n \<and> n < 2 ^ Suc k"
proof (induction n rule: ilog2.induct)
  case (1 n)
  show ?case
  proof (cases "n < 2")
    case True
    with "1.prems" have "n = 1" by simp
    then have "ilog2 n = int 0 \<and> 2 ^ 0 \<le> n \<and> n < 2 ^ Suc 0"
      by (simp add: ilog2.simps)
    then show ?thesis by blast
  next
    case False
    then have h: "1 \<le> n div 2" by simp
    from "1.IH" [OF False h] obtain k where
      k: "ilog2 (n div 2) = int k" "2 ^ k \<le> n div 2" "n div 2 < 2 ^ Suc k"
      by blast
    have eq: "ilog2 n = ilog2 (n div 2) + 1"
      using False by (subst ilog2.simps) simp
    have "ilog2 n = int (Suc k)"
      using eq k(1) by simp
    moreover have "2 ^ Suc k \<le> n"
      using k(2) by (simp; linarith)
    moreover have "n < 2 ^ Suc (Suc k)"
      using k(3) by (simp; linarith)
    ultimately show ?thesis by blast
  qed
qed

lemma round_half_even_nearest: "\<bar>of_int (round_half_even q) - q\<bar> \<le> 1 / 2"
proof -
  define f where "f = \<lfloor>q\<rfloor>"
  have "of_int f \<le> q" "q < of_int f + 1"
    unfolding f_def by linarith+
  then show ?thesis
    unfolding round_half_even_def tie_to_even_def f_def [symmetric]
    by (auto simp: abs_if)
qed

lemma round_to_unit_near:
  assumes "0 < u"
  shows "\<bar>round_to_unit m u - m\<bar> \<le> u / 2"
proof -
  let ?n = "of_int (round_half_even (m / u)) :: rat"
  have "\<bar>?n - m / u\<bar> * u \<le> 1 / 2 * u"
    using round_half_even_nearest [of "m / u"] assms by (intro mult_right_mono) simp_all
  moreover have "(?n - m / u) * u = ?n * u - m"
    using assms by (simp add: left_diff_distrib)
  moreover have "\<bar>?n - m / u\<bar> * u = \<bar>(?n - m / u) * u\<bar>"
    using assms by (simp add: abs_mult)
  ultimately show ?thesis
    by (simp add: round_to_unit_def)
qed

lemma floor_log2_bounds:
  assumes "0 < m"
  shows "pow2 (floor_log2 m) \<le> m \<and> m < pow2 (floor_log2 m + 1)"
proof (cases "1 \<le> m")
  case True
  then have "1 \<le> \<lfloor>m\<rfloor>" by simp
  from ilog2_bounds [OF this] obtain k where
    k: "ilog2 \<lfloor>m\<rfloor> = int k" "2 ^ k \<le> \<lfloor>m\<rfloor>" "\<lfloor>m\<rfloor> < 2 ^ Suc k"
    by blast
  have lo: "(2::rat) ^ k \<le> m"
  proof -
    have "(of_int (2 ^ k) :: rat) \<le> of_int \<lfloor>m\<rfloor>" using k(2) by (simp only: of_int_le_iff)
    also have "\<dots> \<le> m" by (rule of_int_floor_le)
    finally show ?thesis by simp
  qed
  have hi: "m < (2::rat) ^ Suc k"
  proof -
    have c: "\<lfloor>m\<rfloor> + 1 \<le> 2 ^ Suc k" using k(3) by simp
    have "m < of_int (\<lfloor>m\<rfloor> + 1)" by linarith
    also have "\<dots> \<le> of_int (2 ^ Suc k)" using c by (simp only: of_int_le_iff)
    finally show ?thesis by simp
  qed
  show ?thesis
    using True lo hi k(1) by (simp add: floor_log2_def pow2_def nat_add_distrib)
next
  case False
  then have m1: "m < 1" by simp
  then have "1 < 1 / m" using assms by simp
  then have c2: "2 \<le> \<lceil>1 / m\<rceil>" by linarith
  then have "1 \<le> \<lceil>1 / m\<rceil> - 1" by simp
  from ilog2_bounds [OF this] obtain k where
    k: "ilog2 (\<lceil>1 / m\<rceil> - 1) = int k" "2 ^ k \<le> \<lceil>1 / m\<rceil> - 1" "\<lceil>1 / m\<rceil> - 1 < 2 ^ Suc k"
    by blast
  have e: "floor_log2 m = - (int k + 1)"
    using False c2 k(1) by (simp add: floor_log2_def)
  have "(of_int (2 ^ k) :: rat) \<le> of_int (\<lceil>1 / m\<rceil> - 1)"
    using k(2) by (simp only: of_int_le_iff)
  also have "\<dots> < 1 / m" by linarith
  finally have "(2::rat) ^ k < 1 / m" by simp
  then have hi: "m < 1 / 2 ^ k"
    using assms by (simp add: field_simps)
  have c: "\<lceil>1 / m\<rceil> \<le> 2 ^ Suc k" using k(3) by simp
  have "1 / m \<le> of_int \<lceil>1 / m\<rceil>" by (rule le_of_int_ceiling)
  also have "\<dots> \<le> of_int (2 ^ Suc k)" using c by (simp only: of_int_le_iff)
  finally have "1 / m \<le> (2::rat) ^ Suc k" by simp
  then have lo: "1 / 2 ^ Suc k \<le> m"
    using assms by (simp add: field_simps)
  have p1: "pow2 (- (int k + 1)) = 1 / 2 ^ Suc k"
    by (simp add: pow2_def nat_add_distrib)
  have p2: "pow2 (- (int k + 1) + 1) = 1 / 2 ^ k"
    by (cases k) (simp_all add: pow2_def nat_add_distrib)
  show ?thesis
    using lo hi by (simp only: e p1 p2)
qed

text \<open>
  The rounded magnitude is a multiple of the unit in the last place, at most half a unit
  away from the exact one, and below \<open>2 ^ 1024\<close>.
\<close>

lemma round_mag_nearest:
  assumes "0 < m" and "round_mag m = Some r"
  shows "\<bar>r - m\<bar> \<le> pow2 (max (floor_log2 m) (- 1022) - 52) / 2 \<and>
         (\<exists>n. r = of_int n * pow2 (max (floor_log2 m) (- 1022) - 52)) \<and>
         r < 2 ^ 1024"
  using assms round_to_unit_near [of "pow2 (max (floor_log2 m) (- 1022) - 52)" m]
  by (auto simp: round_mag_def overflow_def pow2_pos round_to_unit_def split: if_splits)


text \<open>Some values every binary64 implementation agrees on.\<close>

lemma binary64_samples:
  "js_lit (1 / 10) = Fin (3602879701896397 / 36028797018963968)"
  "js_add (js_lit (1 / 10)) (js_lit (2 / 10)) = Fin (1351079888211149 / 4503599627370496)"
  "js_add (js_lit (1 / 10)) (js_lit (2 / 10)) \<noteq> js_lit (3 / 10)"
  "js_mul (js_lit (9 / 10)) (js_lit 100) = Fin 90"
  "js_div (Fin 1) (Fin 3) = Fin (6004799503160661 / 18014398509481984)"
  "js_div (Fin 1) (Fin 0) = Infty False"
  "js_div (Fin 1) NegZero = Infty True"
  "js_div (Fin 0) (Fin 0) = NaN"
  "Math_round (Fin (5 / 2)) = Fin 3"
  "Math_round (Fin (- (5 / 2))) = Fin (- 2)"
  "Math_round (Fin (- (1 / 4))) = NegZero"
  "Math_min (Fin 0) NegZero = NegZero"
  "\<not> js_lt NaN (Fin 1) \<and> \<not> js_ge NaN (Fin 1)"
  by (simp_all add: js_eval fl_eval)

section \<open>Position sizer: results\<close>

lemma fl_not_NaN: "fl s m \<noteq> NaN"
  by (cases "round_mag m") (simp_all add: fl_def signed_def zero_def)

lemma mul_finite_not_NaN: "is_finite x \<Longrightarrow> is_finite y \<Longrightarrow> js_mul x y \<noteq> NaN"
  by (cases x; cases y) (simp_all add: js_mul_def fl_not_NaN)

lemma div_finite_not_NaN:
  "x \<noteq> NaN \<Longrightarrow> is_finite y \<Longrightarrow> \<not> is_zero y \<Longrightarrow> js_div x y \<noteq> NaN"
  by (cases x; cases y) (simp_all add: js_div_def fl_not_NaN is_zero_def)

lemma position_size_not_NaN:
  assumes "is_finite b" "is_finite (js_div r (js_lit 100))"
    and "is_finite (js_div s (js_lit 100))" "\<not> is_zero (js_div s (js_lit 100))"
  shows "Math_min (js_div (js_mul b (js_div r (js_lit 100))) (js_div s (js_lit 100)))
           (js_mul b (js_lit (1 / 2))) \<noteq> NaN"
proof -
  have "js_mul b (js_div r (js_lit 100)) \<noteq> NaN"
    using assms(1,2) by (rule mul_finite_not_NaN)
  then have "js_div (js_mul b (js_div r (js_lit 100))) (js_div s (js_lit 100)) \<noteq> NaN"
    using assms(3,4) by (rule div_finite_not_NaN)
  moreover have "js_mul b (js_lit (1 / 2)) \<noteq> NaN"
    using assms(1) by (intro mul_finite_not_NaN) (simp_all add: fl_eval)
  ultimately show ?thesis
    by (simp add: Math_min_def)
qed

lemma position_size_nnz:
  assumes "js_ge b (js_lit 0)" "js_gt r (js_lit 0)" "js_gt s (js_lit 0)"
  shows "nnz (Math_min (js_div (js_mul b (js_div r (js_lit 100))) (js_div s (js_lit 100)))
                (js_mul b (js_lit (1 / 2))))"
proof -
  have b: "nnz b"
    using assms(1) by (rule ge_zero_nnz)
  have "nnz (js_div (js_mul b (js_div r (js_lit 100))) (js_div s (js_lit 100)))"
    using b assms(2,3) by (intro nnz_div nnz_mul pos_percent)
  moreover have "nnz (js_mul b (js_lit (1 / 2)))"
    using b by (intro nnz_mul pos_lit)
  ultimately show ?thesis
    by (rule Math_min_nnz)
qed

text \<open>
  C3, as the code has it. \<^verbatim>\<open>calculatePositionSize\<close> validates nothing: for every triple
  of numbers, a negative balance and percentages of zero or less included, the promise
  is fulfilled with the number \<^verbatim>\<open>Math.min(positionSize, totalBalance * 0.5)\<close>; it is
  never rejected, with \<^verbatim>\<open>InvalidInput\<close> or anything else.
\<close>

theorem calculatePositionSize_never_fails:
  "calculatePositionSize b r s =
   Inr (Math_min (js_div (js_mul b (js_div r (js_lit 100))) (js_div s (js_lit 100)))
          (js_mul b (js_lit (1 / 2))))"
  by (simp add: calculatePositionSize_def)

text \<open>
  C3 as the specification states it fails: a balance of \<open>-100\<close> with risk 1.5 and stop
  loss 3 is answered with the size \<open>-50\<close>.
\<close>

theorem calculatePositionSize_negative_balance:
  "js_lt (Fin (- 100)) (js_lit 0) \<and>
   calculatePositionSize (Fin (- 100)) (js_lit (3 / 2)) (js_lit 3) = Inr (Fin (- 50))"
  by (simp add: calculatePositionSize_def js_eval fl_eval)

text \<open>
  C8, as the code has it. For a balance of at least zero and two percentages above zero
  the size is \<^verbatim>\<open>Math.min(balance * (risk / 100) / (stopLoss / 100), balance * 0.5)\<close> in
  binary64 arithmetic, and unless that number is NaN it lies between zero and half the
  balance. It is not NaN when the balance is finite, the two quotients by 100 are
  finite and the stop loss divided by 100 is not zero. The balance 10000 with risk 1.5
  and stop loss 3 gives 5000; with risk 1 and stop loss 10 it gives 1000.
\<close>

theorem position_size_bounded:
  "(js_ge b (js_lit 0) \<and> js_gt r (js_lit 0) \<and> js_gt s (js_lit 0) \<longrightarrow>
      (\<exists>size. calculatePositionSize b r s = Inr size \<and>
         size = Math_min (js_div (js_mul b (js_div r (js_lit 100))) (js_div s (js_lit 100)))
                  (js_mul b (js_lit (1 / 2))) \<and>
         (size = NaN \<or> js_le (js_lit 0) size \<and> js_le size (js_mul b (js_lit (1 / 2)))) \<and>
         (is_finite b \<and> is_finite (js_div r (js_lit 100)) \<and>
          is_finite (js_div s (js_lit 100)) \<and> \<not> is_zero (js_div s (js_lit 100)) \<longrightarrow>
            size \<noteq> NaN))) \<and>
   calculatePositionSize (js_lit 10000) (js_lit (3 / 2)) (js_lit 3) = Inr (js_lit 5000) \<and>
   calculatePositionSize (js_lit 10000) (js_lit 1) (js_lit 10) = Inr (js_lit 1000)"
proof (intro conjI impI)
  assume "js_ge b (js_lit 0) \<and> js_gt r (js_lit 0) \<and> js_gt s (js_lit 0)"
  then have "nnz (Math_min (js_div (js_mul b (js_div r (js_lit 100))) (js_div s (js_lit 100)))
                (js_mul b (js_lit (1 / 2))))"
    by (simp add: position_size_nnz)
  then show "\<exists>size. calculatePositionSize b r s = Inr size \<and>
         size = Math_min (js_div (js_mul b (js_div r (js_lit 100))) (js_div s (js_lit 100)))
                  (js_mul b (js_lit (1 / 2))) \<and>
         (size = NaN \<or> js_le (js_lit 0) size \<and> js_le size (js_mul b (js_lit (1 / 2)))) \<and>
         (is_finite b \<and> is_finite (js_div r (js_lit 100)) \<and>
          is_finite (js_div s (js_lit 100)) \<and> \<not> is_zero (js_div s (js_lit 100)) \<longrightarrow>
            size \<noteq> NaN)"
    using Math_min_le nnz_ge_zero position_size_not_NaN
    by (auto simp: calculatePositionSize_def)
next
  show "calculatePositionSize (js_lit 10000) (js_lit (3 / 2)) (js_lit 3) = Inr (js_lit 5000)"
    by (simp add: calculatePositionSize_def js_eval fl_eval)
next
  show "calculatePositionSize (js_lit 10000) (js_lit 1) (js_lit 10) = Inr (js_lit 1000)"
    by (simp add: calculatePositionSize_def js_eval fl_eval)
qed

theorem position_size_bounded_witness:
  "js_ge (js_lit 10000) (js_lit 0) \<and> js_gt (js_lit 1) (js_lit 0) \<and> js_gt (js_lit 10) (js_lit 0) \<and>
   is_finite (js_lit 10000) \<and> is_finite (js_div (js_lit 1) (js_lit 100)) \<and>
   is_finite (js_div (js_lit 10) (js_lit 100)) \<and> \<not> is_zero (js_div (js_lit 10) (js_lit 100)) \<and>
   calculatePositionSize (js_lit 10000) (js_lit 1) (js_lit 10) = Inr (Fin 1000) \<and>
   Fin 1000 \<noteq> NaN \<and>
   js_le (js_lit 0) (Fin 1000) \<and> js_le (Fin 1000) (js_mul (js_lit 10000) (js_lit (1 / 2)))"
  using position_size_bounded [of "js_lit 10000" "js_lit 1" "js_lit 10"]
  by (simp add: calculatePositionSize_def js_eval fl_eval)

text \<open>
  C8 as the specification states it fails twice. The second worked example is 1000, not
  100. And a valid input can give NaN, which is not between zero and half the balance:
  a stop loss of \<open>2 ^ - 1074\<close>, the least positive binary64 value, divided by 100 rounds
  to zero, and with a balance of zero the size is \<open>0 / 0\<close>.
\<close>

theorem position_size_counterexamples:
  "calculatePositionSize (js_lit 10000) (js_lit 1) (js_lit 10) = Inr (Fin 1000) \<and>
   js_lit 100 = Fin 100 \<and>
   js_ge (js_lit 0) (js_lit 0) \<and> js_gt (js_lit 1) (js_lit 0) \<and>
   js_gt (Fin (1 / 2 ^ 1074)) (js_lit 0) \<and>
   calculatePositionSize (js_lit 0) (js_lit 1) (Fin (1 / 2 ^ 1074)) = Inr NaN"
  by (simp add: calculatePositionSize_def js_eval fl_eval)

section \<open>Signal engine: results\<close>

subsection \<open>The confidence of a verdict\<close>

lemma rsi_confidence:
  "fst (snd (rsi_signals i v)) =
   (if rsi_fired i then js_add (fst (snd v)) (js_lit (3 / 10)) else fst (snd v))"
  by (cases v) (simp add: rsi_signals_def rsi_fired_def)

lemma macd_confidence:
  "fst (snd (macd_signals i v)) =
   (if macd_fired i then js_add (fst (snd v)) (js_lit (1 / 4)) else fst (snd v))"
  by (cases v) (auto simp: macd_signals_def macd_fired_def)

lemma ema_confidence:
  "fst (snd (moving_average_signals i v)) =
   (if ema_fired i then js_add (fst (snd v)) (js_lit (1 / 5)) else fst (snd v))"
  by (cases v) (simp add: moving_average_signals_def ema_fired_def)

lemma volume_confidence:
  "fst (snd (volume_confirmation i v)) =
   (if js_gt (volume i) (js_lit 500000) then js_add (fst (snd v)) (js_lit (15 / 100))
    else fst (snd v))"
  by (cases v) (simp add: volume_confirmation_def)

lemma volatility_confidence:
  "fst (snd (volatility_adjustment i v)) =
   (if js_gt (volatility i) (js_lit (3 / 10)) then js_mul (fst (snd v)) (js_lit (8 / 10))
    else fst (snd v))"
  by (cases v) (simp add: volatility_adjustment_def)

lemma verdict_confidence:
  "fst (snd (volatility_adjustment i (volume_confirmation i (moving_average_signals i
      (macd_signals i (rsi_signals i (Hold, js_lit 0, []))))))) =
   raw_confidence (rsi_fired i) (macd_fired i) (ema_fired i)
     (js_gt (volume i) (js_lit 500000)) (js_gt (volatility i) (js_lit (3 / 10)))"
  by (simp add: volatility_confidence volume_confidence ema_confidence macd_confidence
      rsi_confidence raw_confidence_def add_if_def)

text \<open>
  Whatever rules fire, \<^verbatim>\<open>Math.round(confidence * 100)\<close> is the whole number of
  hundredths that exact arithmetic gives: 32 evaluations in binary64.
\<close>

lemma rounded_percent:
  "Math_round (js_mul (Math_min (raw_confidence r m e v h) (js_lit 1)) (js_lit 100)) =
   Fin (of_nat (percent r m e v h))"
  by (cases r; cases m; cases e; cases v; cases h)
     (simp_all add: raw_confidence_def add_if_def percent_def js_eval round_eval signal_literals)

lemma percent_le: "percent r m e v h \<le> 100"
  by (simp add: percent_def Let_def)

lemma percent_bounds:
  "js_le (js_lit 0) (js_div (Fin (of_nat (percent r m e v h))) (js_lit 100)) \<and>
   js_le (js_div (Fin (of_nat (percent r m e v h))) (js_lit 100)) (js_lit 1)"
  by (cases r; cases m; cases e; cases v; cases h)
     (simp_all add: percent_def js_eval round_eval signal_literals)

lemma generateSignal_confidence:
  "confidence (fst (generateSignal i g)) =
   js_div (Fin (of_nat (percent (rsi_fired i) (macd_fired i) (ema_fired i)
     (js_gt (volume i) (js_lit 500000)) (js_gt (volatility i) (js_lit (3 / 10))))))
     (js_lit 100)"
  by (simp add: generateSignal_def Let_def case_prod_unfold verdict_confidence rounded_percent)

text \<open>
  C6. For every snapshot and every state of the random generator, the confidence of the
  signal is at least 0 and at most 1, and it is \<^verbatim>\<open>n / 100\<close> for a whole number \<open>n\<close> of
  hundredths, \<open>n \<le> 100\<close>: rounded to two decimals.
\<close>

theorem confidence_unit_interval_two_decimals:
  "js_le (js_lit 0) (confidence (fst (generateSignal i g))) \<and>
   js_le (confidence (fst (generateSignal i g))) (js_lit 1) \<and>
   (\<exists>n. n \<le> 100 \<and>
      confidence (fst (generateSignal i g)) = js_div (Fin (of_nat n)) (js_lit 100))"
proof -
  let ?n = "percent (rsi_fired i) (macd_fired i) (ema_fired i)
     (js_gt (volume i) (js_lit 500000)) (js_gt (volatility i) (js_lit (3 / 10)))"
  have "?n \<le> 100 \<and> confidence (fst (generateSignal i g)) = js_div (Fin (of_nat ?n)) (js_lit 100)"
    by (simp add: percent_le generateSignal_confidence)
  then have "\<exists>n. n \<le> 100 \<and>
      confidence (fst (generateSignal i g)) = js_div (Fin (of_nat n)) (js_lit 100)"
    by (rule exI)
  then show ?thesis
    using percent_bounds by (simp add: generateSignal_confidence)
qed

text \<open>
  C7. With an RSI of 20, the MACD line above its signal and a positive histogram, the
  fast EMA above the slow one, a volume above 500000 and a volatility below 0.3, the
  action is buy and the confidence is the binary64 value of 0.9.
\<close>

theorem all_bullish_confidence:
  assumes "rsi i = js_lit 20"
    and "js_gt (line (macd i)) (signal (macd i))"
    and "js_gt (histogram (macd i)) (js_lit 0)"
    and "js_gt (ema12 (movingAverages i)) (ema26 (movingAverages i))"
    and "js_gt (volume i) (js_lit 500000)"
    and "js_lt (volatility i) (js_lit (3 / 10))"
  shows "action (fst (generateSignal i g)) = Buy \<and>
         confidence (fst (generateSignal i g)) = js_lit (9 / 10)"
proof -
  have r: "js_lt (rsi i) (js_lit 30)"
    by (simp add: assms(1) js_eval fl_eval)
  have h: "\<not> js_gt (volatility i) (js_lit (3 / 10))"
    using assms(6) by (simp add: js_gt_def js_lt_asym)
  have "action (fst (generateSignal i g)) = Buy"
    using r assms(2-5) h
    by (simp add: generateSignal_def Let_def case_prod_unfold rsi_signals_def macd_signals_def
        moving_average_signals_def volume_confirmation_def volatility_adjustment_def)
  moreover have "js_div (Fin (of_nat (percent True True True True False))) (js_lit 100)
      = js_lit (9 / 10)"
    by (simp add: percent_def js_eval fl_eval)
  ultimately show ?thesis
    using r assms(2-5) h
    by (simp add: generateSignal_confidence rsi_fired_def macd_fired_def ema_fired_def)
qed

theorem all_bullish_confidence_witness:
  "rsi bullish = js_lit 20 \<and>
   js_gt (line (macd bullish)) (signal (macd bullish)) \<and>
   js_gt (histogram (macd bullish)) (js_lit 0) \<and>
   js_gt (ema12 (movingAverages bullish)) (ema26 (movingAverages bullish)) \<and>
   js_gt (volume bullish) (js_lit 500000) \<and>
   js_lt (volatility bullish) (js_lit (3 / 10)) \<and>
   action (fst (generateSignal bullish (\<lambda>n. Fin 0))) = Buy \<and>
   confidence (fst (generateSignal bullish (\<lambda>n. Fin 0))) = js_lit (9 / 10)"
proof -
  have h: "rsi bullish = js_lit 20"
    "js_gt (line (macd bullish)) (signal (macd bullish))"
    "js_gt (histogram (macd bullish)) (js_lit 0)"
    "js_gt (ema12 (movingAverages bullish)) (ema26 (movingAverages bullish))"
    "js_gt (volume bullish) (js_lit 500000)"
    "js_lt (volatility bullish) (js_lit (3 / 10))"
    by (simp_all add: bullish_def js_eval fl_eval)
  show ?thesis
    using h all_bullish_confidence [OF h, of "\<lambda>n. Fin 0"] by simp
qed

text \<open>
  C2, as the code has it. The action, the confidence and the rationale of a signal are
  functions of the snapshot alone, and so is which of the optional fields are present:
  \<^verbatim>\<open>suggestedAmount\<close> exactly when the action is not hold, \<^verbatim>\<open>targetPrice\<close> and
  \<^verbatim>\<open>stopLoss\<close> exactly when the action is buy. The values of the fields that are present
  are computed from successive results of \<^verbatim>\<open>Math.random()\<close>: the first scaled by 1000
  and shifted by 100, the second scaled by 10 and shifted by 100, the third scaled by 5
  and shifted by 95.
\<close>

theorem generateSignal_verdict_deterministic:
  "action (fst (generateSignal i g1)) = action (fst (generateSignal i g2)) \<and>
   confidence (fst (generateSignal i g1)) = confidence (fst (generateSignal i g2)) \<and>
   reason (fst (generateSignal i g1)) = reason (fst (generateSignal i g2)) \<and>
   (suggestedAmount (fst (generateSignal i g1)) = None) =
     (suggestedAmount (fst (generateSignal i g2)) = None) \<and>
   (targetPrice (fst (generateSignal i g1)) = None) =
     (targetPrice (fst (generateSignal i g2)) = None) \<and>
   (stopLoss (fst (generateSignal i g1)) = None) =
     (stopLoss (fst (generateSignal i g2)) = None) \<and>
   (suggestedAmount (fst (generateSignal i g1)) \<noteq> None) =
     (action (fst (generateSignal i g1)) \<noteq> Hold) \<and>
   (targetPrice (fst (generateSignal i g1)) \<noteq> None) =
     (action (fst (generateSignal i g1)) = Buy) \<and>
   (stopLoss (fst (generateSignal i g1)) \<noteq> None) =
     (action (fst (generateSignal i g1)) = Buy) \<and>
   suggestedAmount (fst (generateSignal i g1)) =
     (if action (fst (generateSignal i g1)) = Hold then None
      else Some (js_add (js_mul (g1 0) (js_lit 1000)) (js_lit 100))) \<and>
   targetPrice (fst (generateSignal i g1)) =
     (if action (fst (generateSignal i g1)) = Buy
        then Some (js_add (js_mul (g1 1) (js_lit 10)) (js_lit 100))
      else None) \<and>
   stopLoss (fst (generateSignal i g1)) =
     (if action (fst (generateSignal i g1)) = Buy
        then Some (js_add (js_mul (g1 2) (js_lit 5)) (js_lit 95))
      else None)"
  by (simp add: generateSignal_def Let_def case_prod_unfold random_field_def Math_random_def
      numeral_2_eq_2)

text \<open>
  C2 as the specification states it fails: on the same snapshot, a generator that
  returns 0 and one that returns 0.5 give signals with different suggested amounts (100
  and 600).
\<close>

theorem generateSignal_random_fields_differ:
  "suggestedAmount (fst (generateSignal bullish (\<lambda>n. Fin 0))) = Some (Fin 100) \<and>
   suggestedAmount (fst (generateSignal bullish (\<lambda>n. Fin (1 / 2)))) = Some (Fin 600) \<and>
   fst (generateSignal bullish (\<lambda>n. Fin 0)) \<noteq> fst (generateSignal bullish (\<lambda>n. Fin (1 / 2)))"
proof -
  have a: "suggestedAmount (fst (generateSignal bullish (\<lambda>n. Fin 0))) = Some (Fin 100)"
    by (simp add: generateSignal_def Let_def case_prod_unfold random_field_def Math_random_def
        bullish_def rsi_signals_def macd_signals_def moving_average_signals_def
        volume_confirmation_def volatility_adjustment_def js_eval fl_eval)
  have b: "suggestedAmount (fst (generateSignal bullish (\<lambda>n. Fin (1 / 2)))) = Some (Fin 600)"
    by (simp add: generateSignal_def Let_def case_prod_unfold random_field_def Math_random_def
        bullish_def rsi_signals_def macd_signals_def moving_average_signals_def
        volume_confirmation_def volatility_adjustment_def js_eval fl_eval)
  have "fst (generateSignal bullish (\<lambda>n. Fin 0))
      \<noteq> fst (generateSignal bullish (\<lambda>n. Fin (1 / 2)))"
  proof
    assume "fst (generateSignal bullish (\<lambda>n. Fin 0))
      = fst (generateSignal bullish (\<lambda>n. Fin (1 / 2)))"
    then have "suggestedAmount (fst (generateSignal bullish (\<lambda>n. Fin 0)))
      = suggestedAmount (fst (generateSignal bullish (\<lambda>n. Fin (1 / 2))))"
      by simp
    with a b show False by simp
  qed
  with a b show ?thesis by simp
qed

section \<open>Trading workflow: results\<close>

lemmas step_defs = bind_def ret_def throw_def call_def resolve_def

text \<open>
  C1 does not hold of the code. A decision to sell with \<^verbatim>\<open>execute: true\<close> is answered,
  in every scope and whatever the collaborators would return, with
  \<^verbatim>\<open>{executed: false, reason: 'Sell implementation pending'}\<close>, and no call is made:
  no quote is requested, no guard applied, no trade submitted.
\<close>

theorem sell_decision_not_executed:
  "TradeExecution sc rt caps sell_decision =
     (Some (NotExecuted (Some ''Sell implementation pending'')), [])"
  by (simp add: TradeExecution_def TradeExecution_try_def sell_decision_def step_defs Let_def)

text \<open>
  C10. In the scope of the workflow module as written, every decision to buy with
  \<^verbatim>\<open>execute: true\<close> ends in the \<^verbatim>\<open>catch\<close>: the outcome is
  \<^verbatim>\<open>{executed: false, error: 'ethers is not defined'}\<close> (or the message of the
  \<^verbatim>\<open>TypeError\<close> when the decision has no symbol), never one with \<^verbatim>\<open>executed: true\<close>,
  and no collaborator has been called.
\<close>

theorem buy_fails_in_workflow_scope:
  assumes "execute dec" and "decision_action dec = Some Buy"
  shows "TradeExecution workflow_scope rt caps dec =
     (Some (Failed (case decision_symbol dec of
                      None \<Rightarrow> error_message (reading_undefined ''split'')
                    | Some symbol \<Rightarrow> ''ethers is not defined'')), [])"
  using assms
  by (simp add: TradeExecution_def TradeExecution_try_def workflow_scope_def step_defs Let_def
      split: option.splits)

theorem buy_fails_in_workflow_scope_witness:
  "execute buy_decision \<and> decision_action buy_decision = Some Buy \<and>
   TradeExecution workflow_scope sample_runtime sample_capabilities buy_decision =
     (Some (Failed ''ethers is not defined''), [])"
proof -
  have h: "execute buy_decision" "decision_action buy_decision = Some Buy"
    by (simp_all add: buy_decision_def)
  show ?thesis
    using h buy_fails_in_workflow_scope [OF h, of sample_runtime sample_capabilities]
    by (simp add: buy_decision_def)
qed

text \<open>
  The second free identifier alone is enough: in any scope that does not bind
  \<^verbatim>\<open>marketData\<close>, also one that binds \<^verbatim>\<open>ethers\<close>, no outcome has \<^verbatim>\<open>executed: true\<close>.
\<close>

lemma never_executed_without_marketData:
  assumes "marketData sc = None"
  shows "fst (TradeExecution sc rt caps dec) \<noteq> Some (Executed h a out impact)"
  using assms
  by (auto simp: TradeExecution_def TradeExecution_try_def step_defs Let_def
      split: option.splits sum.splits prod.splits if_splits)

text \<open>
  The guard on the price impact (line 106) does what its \<^verbatim>\<open>else\<close> branch says once it is
  reached: whenever the step has obtained a quote whose price impact is at least 1.5, its
  outcome is \<^verbatim>\<open>{executed: false, reason: 'Price impact too high: ...%'}\<close>, the request
  for the quote is the only call it made, and \<^verbatim>\<open>executeTrade\<close> is not among its calls.
  A scope that binds \<^verbatim>\<open>ethers\<close> reaches it.
\<close>

lemma price_impact_guard_when_reached:
  assumes "TradeExecution sc rt caps dec = (res, tr)"
    and "GetTradeQuote tokenIn tokenOut amount (Inr q) \<in> set tr"
    and "js_ge (priceImpact q) (js_lit (3 / 2))"
  shows "res = Some (NotExecuted (Some (''Price impact too high: ''
                 @ toString rt (priceImpact q) @ ''%''))) \<and>
         tr = [GetTradeQuote tokenIn tokenOut amount (Inr q)] \<and>
         (\<forall>e \<in> set tr. \<not> is_ExecuteTrade e)"
  using assms
  by (auto simp: TradeExecution_def TradeExecution_try_def step_defs Let_def js_ge_def js_le_def
      split: option.splits sum.splits prod.splits if_splits)

lemma price_impact_guard_with_ethers:
  "TradeExecution ethers_scope sample_runtime sample_capabilities buy_decision =
     (Some (NotExecuted (Some ''Price impact too high: 2%'')),
      [GetTradeQuote ''0xa0b86991c6218b36c1d19d4a2e9eb0ce3606eb48''
         ''0xc02aaa39b223fe8d0a0e5c4f27ead9083c756cc2'' ''990000000''
         (Inr \<lparr>amountOut = ''1000'', priceImpact = Fin 2\<rparr>)])"
  by (simp add: TradeExecution_def TradeExecution_try_def step_defs Let_def ethers_scope_def
      sample_runtime_def sample_capabilities_def buy_decision_def buy_tokenIn_def
      buy_tokenOut_def element_def to_number_def js_eval fl_eval)

text \<open>
  In the scope of the module as written that guard is out of reach: the argument of the
  request for the quote evaluates \<^verbatim>\<open>ethers\<close> (line 102), so the step is in its
  \<^verbatim>\<open>catch\<close> before the request is made, and its trace holds no quote.
\<close>

lemma no_quote_in_workflow_scope:
  "GetTradeQuote tokenIn tokenOut amount outcome
     \<notin> set (snd (TradeExecution workflow_scope rt caps dec))"
  by (simp add: TradeExecution_def TradeExecution_try_def workflow_scope_def step_defs Let_def
      split: option.splits)

text \<open>
  C4 does not hold of the code. Take collaborators whose quote has a price impact of 2
  percent, which is at least 1.5, and a decision to buy with \<^verbatim>\<open>execute: true\<close>. The
  step of the module as written does not answer with the outcome
  \<^verbatim>\<open>{executed: false, reason: 'Price impact too high: 2%'}\<close>: it answers
  \<^verbatim>\<open>{executed: false, error: 'ethers is not defined'}\<close>, an outcome without a reason,
  which \<^verbatim>\<open>PostTradeAnalysis\<close> reports as skipped for an \<^verbatim>\<open>'Unknown reason'\<close>. This
  is so whatever the collaborators return. No call is made, so that \<^verbatim>\<open>executeTrade\<close>
  is indeed not called.
\<close>

theorem high_price_impact_not_reported:
  "getTradeQuote sample_capabilities tokenIn tokenOut amount =
     Inr \<lparr>amountOut = ''1000'', priceImpact = Fin 2\<rparr> \<and>
   js_ge (Fin 2) (js_lit (3 / 2)) \<and>
   TradeExecution workflow_scope rt sample_capabilities buy_decision
     \<noteq> (Some (NotExecuted (Some (''Price impact too high: '' @ toString rt (Fin 2) @ ''%''))),
        [GetTradeQuote ''0xa0b86991c6218b36c1d19d4a2e9eb0ce3606eb48''
           ''0xc02aaa39b223fe8d0a0e5c4f27ead9083c756cc2'' ''990000000''
           (Inr \<lparr>amountOut = ''1000'', priceImpact = Fin 2\<rparr>)]) \<and>
   TradeExecution workflow_scope rt caps buy_decision =
     (Some (Failed ''ethers is not defined''), []) \<and>
   PostTradeAnalysis (fst (TradeExecution workflow_scope rt caps buy_decision)) =
     Inr \<lparr>status = ''skipped'', message = ''Unknown reason'', execution = None\<rparr>"
proof -
  have run: "TradeExecution workflow_scope rt c buy_decision =
      (Some (Failed ''ethers is not defined''), [])" for c
    by (simp add: TradeExecution_def TradeExecution_try_def workflow_scope_def step_defs Let_def
        buy_decision_def)
  have quote: "getTradeQuote sample_capabilities tokenIn tokenOut amount =
      Inr \<lparr>amountOut = ''1000'', priceImpact = Fin 2\<rparr>"
    by (simp add: sample_capabilities_def)
  have ge: "js_ge (Fin 2) (js_lit (3 / 2))"
    by (simp add: js_eval fl_eval)
  have post: "PostTradeAnalysis (Some (Failed ''ethers is not defined'')) =
      Inr \<lparr>status = ''skipped'', message = ''Unknown reason'', execution = None\<rparr>"
    by (simp add: PostTradeAnalysis_def)
  show ?thesis
    by (simp add: run quote ge post)
qed

text \<open>
  C5. For a signal whose action is hold or whose confidence is below 0.6,
  \<^verbatim>\<open>DecisionMaking\<close> returns \<^verbatim>\<open>{execute: false, reason: 'Low confidence (...)'}\<close>
  without a call: neither the portfolio nor the position sizer is asked. The stages
  that follow end in the outcome \<^verbatim>\<open>skipped\<close> carrying that reason, again without a call:
  no quote, no trade, no write to the memory.
\<close>

theorem hold_or_low_confidence_skips:
  assumes "action sig = Hold \<or> js_lt (confidence sig) (js_lit (6 / 10))"
  shows "DecisionMaking rt caps symbol sig =
           (Inr \<lparr>execute = False, decision_action = None, decision_symbol = None,
                  positionSize = None,
                  decision_reason =
                    Some (''Low confidence ('' @ toString rt (confidence sig) @ '')''),
                  decision_confidence = None\<rparr>, []) \<and>
         decide_execute_record sc rt caps symbol sig =
           (Inr \<lparr>status = ''skipped'',
                  message = ''Low confidence ('' @ toString rt (confidence sig) @ '')'',
                  execution = None\<rparr>, [])"
  using assms
  by (simp add: decide_execute_record_def DecisionMaking_def TradeExecution_def
      PostTradeAnalysis_def step_defs)

theorem hold_or_low_confidence_skips_witness:
  "(action hold_signal = Hold \<or> js_lt (confidence hold_signal) (js_lit (6 / 10))) \<and>
   decide_execute_record ethers_scope sample_runtime sample_capabilities ''ETH/USDC'' hold_signal =
     (Inr \<lparr>status = ''skipped'', message = ''Low confidence (0.75)'', execution = None\<rparr>, [])"
proof -
  have h: "action hold_signal = Hold \<or> js_lt (confidence hold_signal) (js_lit (6 / 10))"
    by (simp add: hold_signal_def)
  show ?thesis
    using h hold_or_low_confidence_skips [OF h, of sample_runtime sample_capabilities
        "''ETH/USDC''" ethers_scope]
    by (simp add: sample_runtime_def hold_signal_def)
qed

section \<open>Cooldown: results\<close>

lemma trade_evaluation_trace:
  "analyzeTradingPair new_SlothfulTrader trade_evaluation ''ETH/USDC'' =
     (after_trade,
      [AgentAnalyze ''ETH/USDC'',
       StoreMarketInsight ''ETH/USDC'' ''Strong BUY signal'' (js_lit (7 / 10)),
       AgentTrade Buy ''ETH/USDC'' ''Strong BUY signal'',
       StoreTradingDecision
         \<lparr>timestamp = 1700000005000, entry_symbol = ''ETH/USDC'', entry_action = Buy,
          entry_signal = None, entry_notes = Some ''Strong BUY signal'',
          result_executed = True, result_price = None, result_amount = None\<rparr>])"
  by (simp add: analyzeTradingPair_def executeTradingDecision_def new_SlothfulTrader_def
      trade_evaluation_def after_trade_def Let_def bind_def call_def toLowerCase_def
      lower_char_def)

text \<open>
  C9, as the code has it. When a run of \<^verbatim>\<open>analyzeTradingPair\<close> reaches the trading
  decision, the object remembers the reading of \<^verbatim>\<open>Date.now()\<close> taken at the start of
  that run, and every later attempt, for any instrument, whose own reading is less than
  the cooldown after it returns at once: no call is made, the analysis least of all.
\<close>

theorem cooldown_from_evaluation_start:
  assumes "analyzeTradingPair this w symbol = (this', tr)"
    and "AgentTrade act symbol' text \<in> set tr"
  shows "lastTradeTimestamp this' = Date_now w \<and>
         cooldownPeriod this' = cooldownPeriod this \<and>
         (\<forall>w' other. Date_now w' - Date_now w < cooldownPeriod this \<longrightarrow>
            analyzeTradingPair this' w' other = (this', []))"
  using assms
  by (auto simp: analyzeTradingPair_def Let_def split: if_splits sum.splits)

theorem cooldown_from_evaluation_start_witness:
  "analyzeTradingPair new_SlothfulTrader trade_evaluation ''ETH/USDC'' =
     (after_trade,
      [AgentAnalyze ''ETH/USDC'',
       StoreMarketInsight ''ETH/USDC'' ''Strong BUY signal'' (js_lit (7 / 10)),
       AgentTrade Buy ''ETH/USDC'' ''Strong BUY signal'',
       StoreTradingDecision
         \<lparr>timestamp = 1700000005000, entry_symbol = ''ETH/USDC'', entry_action = Buy,
          entry_signal = None, entry_notes = Some ''Strong BUY signal'',
          result_executed = True, result_price = None, result_amount = None\<rparr>]) \<and>
   lastTradeTimestamp after_trade = Date_now trade_evaluation \<and>
   Date_now cooling_evaluation - Date_now trade_evaluation < cooldownPeriod new_SlothfulTrader \<and>
   analyzeTradingPair after_trade cooling_evaluation ''BTC/USDC'' = (after_trade, [])"
proof -
  have less: "Date_now cooling_evaluation - Date_now trade_evaluation
      < cooldownPeriod new_SlothfulTrader"
    by (simp add: cooling_evaluation_def trade_evaluation_def new_SlothfulTrader_def)
  have "lastTradeTimestamp after_trade = Date_now trade_evaluation \<and>
      cooldownPeriod after_trade = cooldownPeriod new_SlothfulTrader \<and>
      (\<forall>w' other. Date_now w' - Date_now trade_evaluation < cooldownPeriod new_SlothfulTrader \<longrightarrow>
         analyzeTradingPair after_trade w' other = (after_trade, []))"
    by (rule cooldown_from_evaluation_start [OF trade_evaluation_trace,
          of Buy "''ETH/USDC''" "''Strong BUY signal''"]) simp
  with less show ?thesis
    by (simp add: trade_evaluation_trace)
qed

text \<open>
  C9 as the specification states it fails. A run for ETH/USDC starts at 1700000000000
  and records its executed decision at 1700000005000. An attempt for ETH/USDC at
  1700000302000 is less than the cooldown of 300000 after the decision was recorded,
  and it is not skipped: the analysis is invoked.
\<close>

theorem cooldown_not_from_completion:
  "analyzeTradingPair new_SlothfulTrader trade_evaluation ''ETH/USDC'' =
     (after_trade,
      [AgentAnalyze ''ETH/USDC'',
       StoreMarketInsight ''ETH/USDC'' ''Strong BUY signal'' (js_lit (7 / 10)),
       AgentTrade Buy ''ETH/USDC'' ''Strong BUY signal'',
       StoreTradingDecision
         \<lparr>timestamp = 1700000005000, entry_symbol = ''ETH/USDC'', entry_action = Buy,
          entry_signal = None, entry_notes = Some ''Strong BUY signal'',
          result_executed = True, result_price = None, result_amount = None\<rparr>]) \<and>
   Date_now later_evaluation < 1700000005000 + cooldownPeriod after_trade \<and>
   analyzeTradingPair after_trade later_evaluation ''ETH/USDC'' =
     (after_trade,
      [AgentAnalyze ''ETH/USDC'',
       StoreMarketInsight ''ETH/USDC'' ''No clear trend'' (js_lit (7 / 10))])"
  by (simp add: trade_evaluation_trace)
     (simp add: analyzeTradingPair_def later_evaluation_def after_trade_def
       new_SlothfulTrader_def Let_def toLowerCase_def lower_char_def)

end
